theory Spec2Isabelle
  imports Main
begin

section \<open>The demo backend (index.js)\<close>

subsection \<open>JavaScript values that reach the handlers\<close>

text \<open>
  \<^verbatim>\<open>app.use(express.json())\<close> parses the request body with \<^verbatim>\<open>JSON.parse\<close>, so a field
  of \<^verbatim>\<open>req.body\<close> is a JSON value, or \<^verbatim>\<open>undefined\<close> when the key is absent. Numbers are
  kept to the integers (a non-zero integer never rounds to zero, so truthiness is exact);
  arrays and objects are always truthy and are not inspected by any handler, so one
  constructor stands for them.
\<close>

datatype jsval =
    JUndefined
  | JNull
  | JBool bool
  | JNum int
  | JStr string
  | JObject

text \<open>JavaScript's ToBoolean, the test behind \<^verbatim>\<open>!name\<close>.\<close>

fun truthy :: "jsval \<Rightarrow> bool" where
  "truthy JUndefined = False"
| "truthy JNull = False"
| "truthy (JBool b) = b"
| "truthy (JNum n) = (n \<noteq> 0)"
| "truthy (JStr s) = (s \<noteq> [])"
| "truthy JObject = True"

text \<open>
  An object parsed from JSON: a finite map from keys to values. Reading a key the object
  does not have yields \<^verbatim>\<open>undefined\<close>.
\<close>

type_synonym jsobject = "string \<rightharpoonup> jsval"

definition field :: "jsobject \<Rightarrow> string \<Rightarrow> jsval" where
  "field obj k = (case obj k of None \<Rightarrow> JUndefined | Some v \<Rightarrow> v)"

subsection \<open>The users array\<close>

record user =
  id :: nat
  name :: jsval
  email :: jsval

text \<open>\<^verbatim>\<open>let users = [ {id: 1, ...}, {id: 2, ...} ]\<close>\<close>

definition initial_users :: "user list" where
  "initial_users =
     [\<lparr>id = 1, name = JStr ''John Doe'', email = JStr ''john@example.com''\<rparr>,
      \<lparr>id = 2, name = JStr ''Jane Smith'', email = JStr ''jane@example.com''\<rparr>]"

subsection \<open>POST /users\<close>

record post_response =
  p_status :: nat
  p_success :: bool
  p_message :: string
  p_data :: "user option"

text \<open>
  \<^verbatim>\<open>req.body\<close> as the handler finds it. \<^verbatim>\<open>express.json()\<close> parses a body sent as JSON
  into an object (\<open>Some\<close> of its fields; a JSON array has neither field and is the empty
  map). For a request it does not parse (no body, or a content type other than JSON)
  \<^verbatim>\<open>req.body\<close> is whatever the installed Express leaves there: an empty object in
  Express 4, \<^verbatim>\<open>undefined\<close> in Express 5. The repository pins no version, so both are
  inputs of the handler; \<open>None\<close> is \<^verbatim>\<open>undefined\<close>.
\<close>

type_synonym reqbody = "jsobject option"

text \<open>What a handler can throw.\<close>

datatype js_error = TypeError

text \<open>
  \<^verbatim>\<open>
  const { name, email } = req.body;
  if (!name || !email) {
    return res.status(400).json({ success: false, message: 'Please provide name and email' });
  }
  const newUser = { id: users.length + 1, name, email };
  users.push(newUser);
  res.status(201).json({ success: true, message: 'User created successfully', data: newUser });
  \<close>
  The handler takes \<^verbatim>\<open>req.body\<close> and the module-level \<^verbatim>\<open>users\<close> array and returns what
  it answers together with the array as it is afterwards. The destructuring in its first
  line is unguarded: on \<^verbatim>\<open>undefined\<close> it throws a TypeError before anything else runs,
  the handler sends no response of its own (Express's error handler answers in its
  place) and the array is untouched.
\<close>

definition post_users :: "reqbody \<Rightarrow> user list \<Rightarrow> (js_error + post_response) \<times> user list" where
  "post_users req_body users =
     (case req_body of
        None \<Rightarrow> (Inl TypeError, users)
      | Some body \<Rightarrow>
          (let name = field body ''name''; email = field body ''email'' in
           if \<not> truthy name \<or> \<not> truthy email then
             (Inr \<lparr>p_status = 400, p_success = False,
                   p_message = ''Please provide name and email'', p_data = None\<rparr>, users)
           else
             (let newUser = \<lparr>id = length users + 1, name = name, email = email\<rparr> in
              (Inr \<lparr>p_status = 201, p_success = True,
                    p_message = ''User created successfully'', p_data = Some newUser\<rparr>,
               users @ [newUser]))))"

text \<open>A field is missing when the body has no such key.\<close>

definition missing :: "jsobject \<Rightarrow> string \<Rightarrow> bool" where
  "missing body k = (body k = None)"

subsection \<open>GET /users\<close>

record users_response =
  u_status :: nat
  u_success :: bool
  u_server :: "string option"
  u_time :: int
  u_count :: nat
  u_data :: "user list"

text \<open>
  \<^verbatim>\<open>
  if (process.env.SERVER_NAME === 'app2') {
    await new Promise(resolve => setTimeout(resolve, 3000));
  }
  res.status(200).json({ success: true, server: process.env.SERVER_NAME,
                         time: Date.now(), count: users.length, data: users });
  \<close>
  The delay suspends the handler before anything is read; the response object is then
  built in one synchronous step. \<open>users\<close> is the array at that step, \<open>server_name\<close> the
  environment variable (unset is \<open>None\<close>) and \<open>now\<close> the value of \<^verbatim>\<open>Date.now()\<close>.
  \<open>get_users_delay\<close> is the time in milliseconds the handler waits before that step.
\<close>

definition get_users_delay :: "string option \<Rightarrow> nat" where
  "get_users_delay server_name = (if server_name = Some ''app2'' then 3000 else 0)"

definition get_users :: "string option \<Rightarrow> int \<Rightarrow> user list \<Rightarrow> users_response \<times> user list" where
  "get_users server_name now users =
     (\<lparr>u_status = 200, u_success = True, u_server = server_name, u_time = now,
       u_count = length users, u_data = users\<rparr>, users)"

subsection \<open>GET /compute\<close>

text \<open>
  JavaScript numbers are IEEE-754 doubles. Every integer of magnitude at most \<open>2^53\<close> is a
  double, and the sum of two such non-negative integers is computed exactly when it is
  again at most \<open>2^53\<close>. \<open>num_add\<close> is addition on that range; outside it the model gives
  no value rather than a rounded one.
\<close>

definition max_exact :: nat where
  "max_exact = 2 ^ 53"

definition num_add :: "nat \<Rightarrow> nat \<Rightarrow> nat option" where
  "num_add a b = (if a + b \<le> max_exact then Some (a + b) else None)"

text \<open>
  \<^verbatim>\<open>
  let total = 0;
  for (let i = 0; i < 1e7; i++) { total += i; }
  \<close>
  The loop from counter \<open>i\<close> and accumulator \<open>tot\<close> (the source's \<^verbatim>\<open>total\<close>), with the
  bound \<open>n\<close> for \<^verbatim>\<open>1e7\<close>.
\<close>

function compute_loop :: "nat \<Rightarrow> nat \<Rightarrow> nat \<Rightarrow> nat option" where
  "compute_loop n i tot =
     (if i < n then
        (case num_add tot i of
           None \<Rightarrow> None
         | Some tot' \<Rightarrow> compute_loop n (i + 1) tot')
      else Some tot)"
  by pat_completeness auto
termination
  by (relation "measure (\<lambda>(n, i, tot). n - i)") auto

record compute_response =
  c_status :: nat
  c_success :: bool
  c_total :: nat

text \<open>
  \<^verbatim>\<open>res.json({ success: true, total })\<close>: the status is Express's default 200. The
  handler reads neither the request nor \<^verbatim>\<open>users\<close>; both are parameters here so that
  the independence can be stated.
\<close>

definition compute :: "jsobject \<Rightarrow> user list \<Rightarrow> compute_response option \<times> user list" where
  "compute req users =
     (case compute_loop 10000000 0 0 of
        None \<Rightarrow> (None, users)
      | Some tot \<Rightarrow> (Some \<lparr>c_status = 200, c_success = True, c_total = tot\<rparr>, users))"

section \<open>The health monitor of the traffic-distribution core\<close>

text \<open>
  The repository has no code for the traffic-distribution core that the specification
  describes: its load balancer is the stock nginx server, set up by \<^verbatim>\<open>nginx.conf\<close> (an
  \<^verbatim>\<open>upstream\<close> block naming three servers, and three \<^verbatim>\<open>proxy_*_timeout\<close> directives).
  The definitions of this section are therefore taken from the specification's text.
  Times are in milliseconds.
\<close>

text \<open>
  Modelled from the spec: the states of a Target (section 4.2). The Target type and its
  health tracking are missing from the repository.
\<close>

datatype health_state = Healthy | Quarantined | Probing

text \<open>
  Modelled from the spec: the classified result of one forwarding attempt (section 4.2),
  missing from the repository.
\<close>

datatype outcome = Success | Timeout | ConnectionFailure

text \<open>
  Modelled from the spec: the Target of section 3, missing from the repository. \<open>tid\<close> is
  the spec's \<open>id\<close>; \<open>lastSelectedIndex\<close> is left out, the spec calling it meaningful only
  pool-wide.
\<close>

record target =
  tid :: string
  address :: string
  state :: health_state
  quarantinedAt :: "nat option"
  consecutiveFailures :: nat

text \<open>
  Modelled from the spec: the configuration options of section 6 other than the list of
  targets; no code of the repository reads such options.
\<close>

record config =
  failureThreshold :: nat
  quarantinePeriod :: nat
  connectTimeout :: nat
  responseTimeout :: nat
  maxRetries :: nat

text \<open>
  Modelled from the spec: the defaults of section 6 (\<open>failureThreshold\<close> 3,
  \<open>quarantinePeriod\<close> 5s, \<open>connectTimeout\<close> 1s, \<open>responseTimeout\<close> 1s, \<open>maxRetries\<close> 1).
\<close>

definition default_config :: config where
  "default_config =
     \<lparr>failureThreshold = 3, quarantinePeriod = 5000, connectTimeout = 1000,
      responseTimeout = 1000, maxRetries = 1\<rparr>"

text \<open>
  Modelled from the spec: a Target as constructed at process start, in the initial state
  \<open>Healthy\<close> with an empty \<open>quarantinedAt\<close> and no failures counted.
\<close>

definition new_target :: "string \<Rightarrow> target" where
  "new_target addr =
     \<lparr>tid = addr, address = addr, state = Healthy, quarantinedAt = None,
      consecutiveFailures = 0\<rparr>"

text \<open>
  Modelled from the spec: \<open>Timeout\<close> and \<open>ConnectionFailure\<close> are both a failure for the
  state machine.
\<close>

fun is_failure :: "outcome \<Rightarrow> bool" where
  "is_failure Success = False"
| "is_failure Timeout = True"
| "is_failure ConnectionFailure = True"

text \<open>
  Modelled from the spec: \<open>Record(target, outcome)\<close>, the transitions of section 4.2,
  with \<open>now\<close> the time of the call. The repository has no such function.
  \<^item> \<open>Healthy\<close>, failure: the counter is incremented; while it is below
    \<open>failureThreshold\<close> the Target stays \<open>Healthy\<close>, and when it reaches the threshold the
    Target becomes \<open>Quarantined\<close>, \<open>quarantinedAt\<close> is \<open>now\<close> and the counter is reset.
  \<^item> \<open>Probing\<close>, failure: \<open>Quarantined\<close>, with \<open>quarantinedAt\<close> restarted (the optional
    exponential backoff is left out).
  \<^item> \<open>Healthy\<close> or \<open>Probing\<close>, success: \<open>Healthy\<close>, counter reset.
  \<^item> \<open>Quarantined\<close>: the spec lists no transition driven by an outcome; a success resets
    the counter (it is reset on any successful outcome) and a failure changes nothing.
  Record has no error return.
\<close>

definition Record :: "config \<Rightarrow> nat \<Rightarrow> target \<Rightarrow> outcome \<Rightarrow> target" where
  "Record cfg now t out =
     (if is_failure out then
        (case state t of
           Healthy \<Rightarrow>
             (let n = consecutiveFailures t + 1 in
              if n < failureThreshold cfg then t\<lparr>consecutiveFailures := n\<rparr>
              else t\<lparr>state := Quarantined, quarantinedAt := Some now,
                     consecutiveFailures := 0\<rparr>)
         | Probing \<Rightarrow> t\<lparr>state := Quarantined, quarantinedAt := Some now\<rparr>
         | Quarantined \<Rightarrow> t)
      else
        (case state t of
           Healthy \<Rightarrow> t\<lparr>consecutiveFailures := 0\<rparr>
         | Probing \<Rightarrow> t\<lparr>state := Healthy, consecutiveFailures := 0\<rparr>
         | Quarantined \<Rightarrow> t\<lparr>consecutiveFailures := 0\<rparr>))"

text \<open>
  Modelled from the spec: the outcomes recorded for one Target in the course of a run,
  applied one after the other (calls for the same Target are serialized); each event
  carries the time at which it is recorded. Missing from the repository like \<open>Record\<close>.
\<close>

fun record_all :: "config \<Rightarrow> target \<Rightarrow> (nat \<times> outcome) list \<Rightarrow> target" where
  "record_all cfg t [] = t"
| "record_all cfg t ((now, out) # evs) = record_all cfg (Record cfg now t out) evs"

section \<open>Properties of the demo backend\<close>

lemma compute_loop_sum:
  "tot + (\<Sum>k = i..<n. k) \<le> max_exact \<Longrightarrow>
   compute_loop n i tot = Some (tot + (\<Sum>k = i..<n. k))"
proof (induction n i tot rule: compute_loop.induct)
  case (1 n i tot)
  show ?case
  proof (cases "i < n")
    case True
    then have split_sum: "(\<Sum>k = i..<n. k) = i + (\<Sum>k = Suc i..<n. k)"
      by (simp add: sum.atLeast_Suc_lessThan)
    with "1.prems" have fits: "tot + i \<le> max_exact"
      by simp
    then have step: "num_add tot i = Some (tot + i)"
      by (simp add: num_add_def)
    from "1.prems" split_sum
    have "tot + i + (\<Sum>k = Suc i..<n. k) \<le> max_exact"
      by simp
    with "1.IH" [OF True step] have
      "compute_loop n (i + 1) (tot + i) = Some (tot + i + (\<Sum>k = Suc i..<n. k))"
      by simp
    with True step split_sum show ?thesis
      by (simp del: compute_loop.simps add: compute_loop.simps [of n i tot])
  next
    case False
    then show ?thesis by simp
  qed
qed

lemma sum_below: "(\<Sum>k = 0..<n. k) = n * (n - 1) div (2::nat)"
  by (simp add: Sum_Ico_nat)

lemma sum_1e7: "(\<Sum>k = 0..<10000000. k) = (49999995000000::nat)"
  by (simp add: sum_below)

text \<open>
  C10. Every call of GET /compute answers \<open>success: true\<close> and
  \<open>total = 49999995000000\<close>, the sum of the integers from 0 to \<open>10^7 - 1\<close>, whatever the
  request and whatever the users array, which it leaves as it was.
\<close>

theorem compute_total:
  "compute req users =
     (Some \<lparr>c_status = 200, c_success = True, c_total = 49999995000000\<rparr>, users)
   \<and> (49999995000000::nat) = (\<Sum>k = 0..<10 ^ 7. k)"
proof -
  have "(0::nat) + (\<Sum>k = 0..<10000000. k) \<le> max_exact"
    by (simp add: sum_1e7 max_exact_def)
  then have "compute_loop 10000000 0 0 = Some (0 + (\<Sum>k = 0..<10000000. k))"
    by (rule compute_loop_sum)
  then have "compute_loop 10000000 0 0 = Some 49999995000000"
    by (simp only: sum_1e7 add_0)
  moreover have "(49999995000000::nat) = (\<Sum>k = 0..<10 ^ 7. k)"
    using sum_1e7 by simp
  ultimately show ?thesis
    by (simp add: compute_def)
qed

text \<open>
  C9. In every response of GET /users the \<open>count\<close> field is the length of the \<open>data\<close>
  array of that same response, and the users array is the same after the request as
  before it.
\<close>

theorem get_users_count:
  "u_count (fst (get_users server_name now users)) =
     length (u_data (fst (get_users server_name now users)))
   \<and> u_data (fst (get_users server_name now users)) = users
   \<and> snd (get_users server_name now users) = users"
  by (simp add: get_users_def)

text \<open>
  The first line of the POST handler on a request whose body was not parsed and left
  \<^verbatim>\<open>undefined\<close>: the handler throws and the users array is unchanged.
\<close>

lemma post_users_unparsed_body: "post_users None users = (Inl TypeError, users)"
  by (simp add: post_users_def)

text \<open>
  C8, as stated: a body that has both \<open>name\<close> and \<open>email\<close> is answered with 201 and one
  appended user. It fails for a body whose \<open>name\<close> is present but is the empty string:
  the answer is 400 and nothing is appended.
\<close>

theorem post_users_present_but_empty:
  "\<not> missing [''name'' \<mapsto> JStr [], ''email'' \<mapsto> JStr ''a@example.com''] ''name''
   \<and> \<not> missing [''name'' \<mapsto> JStr [], ''email'' \<mapsto> JStr ''a@example.com''] ''email''
   \<and> post_users (Some [''name'' \<mapsto> JStr [], ''email'' \<mapsto> JStr ''a@example.com''])
         initial_users
       = (Inr \<lparr>p_status = 400, p_success = False,
               p_message = ''Please provide name and email'', p_data = None\<rparr>,
          initial_users)
   \<and> p_status \<lparr>p_status = 400, p_success = False,
               p_message = ''Please provide name and email'', p_data = None\<rparr> \<noteq> 201"
  by (simp add: missing_def post_users_def field_def)

text \<open>
  C8, amended. For every request whose body \<^verbatim>\<open>express.json()\<close> has parsed, so that
  \<^verbatim>\<open>req.body\<close> is an object: if \<open>name\<close> or \<open>email\<close> is missing or falsy (\<^verbatim>\<open>undefined\<close>,
  \<^verbatim>\<open>null\<close>, \<^verbatim>\<open>false\<close>, \<^verbatim>\<open>0\<close>, the empty string), the handler answers 400 with
  \<open>success: false\<close> and the users array is unchanged; otherwise it answers 201 and appends
  exactly one user, whose id is the previous length of the array plus 1 and whose name
  and email are the ones given. A missing field is falsy, so the first half covers every
  parsed body with a missing field. Nothing is said of a request whose \<^verbatim>\<open>req.body\<close> is
  \<^verbatim>\<open>undefined\<close>.
\<close>

theorem post_users_validation:
  assumes "req_body = Some body"
  shows "(\<not> truthy (field body ''name'') \<or> \<not> truthy (field body ''email'') \<longrightarrow>
      post_users req_body users =
        (Inr \<lparr>p_status = 400, p_success = False,
              p_message = ''Please provide name and email'', p_data = None\<rparr>, users))
   \<and> (truthy (field body ''name'') \<and> truthy (field body ''email'') \<longrightarrow>
      post_users req_body users =
        (Inr \<lparr>p_status = 201, p_success = True,
              p_message = ''User created successfully'',
              p_data = Some \<lparr>id = length users + 1, name = field body ''name'',
                              email = field body ''email''\<rparr>\<rparr>,
         users @ [\<lparr>id = length users + 1, name = field body ''name'',
                   email = field body ''email''\<rparr>]))
   \<and> (missing body ''name'' \<or> missing body ''email'' \<longrightarrow>
      \<not> truthy (field body ''name'') \<or> \<not> truthy (field body ''email''))"
  using assms by (auto simp add: post_users_def Let_def missing_def field_def)

theorem post_users_validation_witness:
  "post_users (Some [''email'' \<mapsto> JStr ''a@example.com'']) initial_users
     = (Inr \<lparr>p_status = 400, p_success = False,
             p_message = ''Please provide name and email'', p_data = None\<rparr>,
        initial_users)
   \<and> post_users (Some [''name'' \<mapsto> JStr ''Ann'', ''email'' \<mapsto> JStr ''a@example.com''])
         initial_users
     = (Inr \<lparr>p_status = 201, p_success = True,
             p_message = ''User created successfully'',
             p_data = Some \<lparr>id = 3, name = JStr ''Ann'', email = JStr ''a@example.com''\<rparr>\<rparr>,
        initial_users @ [\<lparr>id = 3, name = JStr ''Ann'', email = JStr ''a@example.com''\<rparr>])"
proof -
  let ?absent = "[''email'' \<mapsto> JStr ''a@example.com'']"
  let ?given = "[''name'' \<mapsto> JStr ''Ann'', ''email'' \<mapsto> JStr ''a@example.com'']"
  have absent: "missing ?absent ''name''"
    by (simp add: missing_def)
  have falsy: "\<not> truthy (field ?absent ''name'') \<or> \<not> truthy (field ?absent ''email'')"
    using absent post_users_validation [OF refl, of ?absent initial_users] by blast
  have given: "truthy (field ?given ''name'') \<and> truthy (field ?given ''email'')"
    by (simp add: field_def)
  have len: "length initial_users + 1 = 3"
    by (simp add: initial_users_def)
  have fields: "field ?given ''name'' = JStr ''Ann''" "field ?given ''email'' = JStr ''a@example.com''"
    by (simp_all add: field_def)
  from falsy post_users_validation [OF refl, of ?absent initial_users]
  have "post_users (Some ?absent) initial_users
     = (Inr \<lparr>p_status = 400, p_success = False,
             p_message = ''Please provide name and email'', p_data = None\<rparr>,
        initial_users)"
    by blast
  moreover from given post_users_validation [OF refl, of ?given initial_users]
  have "post_users (Some ?given) initial_users
     = (Inr \<lparr>p_status = 201, p_success = True,
             p_message = ''User created successfully'',
             p_data = Some \<lparr>id = length initial_users + 1, name = field ?given ''name'',
                             email = field ?given ''email''\<rparr>\<rparr>,
        initial_users @ [\<lparr>id = length initial_users + 1, name = field ?given ''name'',
                           email = field ?given ''email''\<rparr>])"
    by blast
  ultimately show ?thesis
    by (simp only: len fields)
qed

section \<open>Properties of the health monitor\<close>

lemma record_failure_healthy:
  "state t = Healthy \<Longrightarrow> is_failure out \<Longrightarrow>
   Record cfg now t out =
     (if consecutiveFailures t + 1 < failureThreshold cfg
      then t\<lparr>consecutiveFailures := consecutiveFailures t + 1\<rparr>
      else t\<lparr>state := Quarantined, quarantinedAt := Some now, consecutiveFailures := 0\<rparr>)"
  by (simp add: Record_def Let_def)

lemma record_success_healthy:
  "state t = Healthy \<Longrightarrow> Record cfg now t Success = t\<lparr>consecutiveFailures := 0\<rparr>"
  by (simp add: Record_def)

lemma record_all_append:
  "record_all cfg t (evs @ evs') = record_all cfg (record_all cfg t evs) evs'"
  by (induction evs arbitrary: t) auto

text \<open>Failures that leave the counter below the threshold only count up.\<close>

lemma failures_below_threshold:
  "state t = Healthy \<Longrightarrow> \<forall>e\<in>set evs. is_failure (snd e) \<Longrightarrow>
   consecutiveFailures t + length evs < failureThreshold cfg \<Longrightarrow>
   state (record_all cfg t evs) = Healthy
   \<and> consecutiveFailures (record_all cfg t evs) = consecutiveFailures t + length evs"
proof (induction evs arbitrary: t)
  case Nil
  then show ?case by simp
next
  case (Cons e evs)
  obtain now out where e: "e = (now, out)" by (cases e)
  with Cons.prems have f: "is_failure out" by simp
  let ?t = "Record cfg now t out"
  from Cons.prems f have step: "?t = t\<lparr>consecutiveFailures := consecutiveFailures t + 1\<rparr>"
    by (simp add: record_failure_healthy)
  then have after: "state ?t = Healthy" "consecutiveFailures ?t = consecutiveFailures t + 1"
    using Cons.prems by simp_all
  moreover from Cons.prems have "\<forall>e\<in>set evs. is_failure (snd e)" by simp
  moreover from Cons.prems after(2)
  have "consecutiveFailures ?t + length evs < failureThreshold cfg" by simp
  ultimately have "state (record_all cfg ?t evs) = Healthy
     \<and> consecutiveFailures (record_all cfg ?t evs) = consecutiveFailures ?t + length evs"
    using Cons.IH by blast
  with e after(2) show ?case by simp
qed

text \<open>The failure that brings the counter to the threshold quarantines the Target.\<close>

lemma failures_reach_threshold:
  assumes "state t = Healthy" "\<forall>e\<in>set evs. is_failure (snd e)"
    and "consecutiveFailures t + length evs = failureThreshold cfg" "evs \<noteq> []"
  shows "state (record_all cfg t evs) = Quarantined
   \<and> quarantinedAt (record_all cfg t evs) = Some (fst (last evs))
   \<and> consecutiveFailures (record_all cfg t evs) = 0"
proof -
  from assms(4) obtain evs0 e where split: "evs = evs0 @ [e]"
    by (metis rev_exhaust)
  obtain now out where e: "e = (now, out)" by (cases e)
  let ?t = "record_all cfg t evs0"
  from assms split have "state ?t = Healthy
      \<and> consecutiveFailures ?t = consecutiveFailures t + length evs0"
    by (intro failures_below_threshold) auto
  moreover from assms split e have "is_failure out" by simp
  ultimately have "Record cfg now ?t out =
      ?t\<lparr>state := Quarantined, quarantinedAt := Some now, consecutiveFailures := 0\<rparr>"
    using assms(3) split by (simp add: record_failure_healthy)
  then show ?thesis
    using split e by (simp add: record_all_append)
qed

lemma successes_keep_healthy:
  "state t = Healthy \<Longrightarrow> \<forall>e\<in>set evs. snd e = Success \<Longrightarrow>
   record_all cfg t evs = (if evs = [] then t else t\<lparr>consecutiveFailures := 0\<rparr>)"
proof (induction evs arbitrary: t)
  case Nil
  then show ?case by simp
next
  case (Cons e evs)
  obtain now where e: "e = (now, Success)" using Cons.prems by (cases e) auto
  let ?t = "t\<lparr>consecutiveFailures := 0\<rparr>"
  have "state ?t = Healthy" using Cons.prems by simp
  moreover have "\<forall>e\<in>set evs. snd e = Success" using Cons.prems by simp
  ultimately have "record_all cfg ?t evs = (if evs = [] then ?t else ?t\<lparr>consecutiveFailures := 0\<rparr>)"
    by (rule Cons.IH)
  with e Cons.prems show ?case
    by (simp add: record_success_healthy)
qed

text \<open>
  C2. A run of consecutive failures starts on a \<open>Healthy\<close> Target whose counter is 0 (a new
  Target, or one that has just recorded a success). While the run is shorter than
  \<open>failureThreshold\<close> the Target is still \<open>Healthy\<close> and its counter is the length of the
  run; when the run has exactly \<open>failureThreshold\<close> failures the Target is \<open>Quarantined\<close>,
  with \<open>quarantinedAt\<close> the time of the last of them. A success on a Target that is not
  quarantined leaves it \<open>Healthy\<close>, and a success on any Target resets the counter to 0.
\<close>

theorem record_quarantine_threshold:
  assumes "state t = Healthy" and "consecutiveFailures t = 0"
    and "\<forall>e\<in>set evs. is_failure (snd e)"
  shows "(length evs < failureThreshold cfg \<longrightarrow>
            state (record_all cfg t evs) = Healthy
            \<and> consecutiveFailures (record_all cfg t evs) = length evs)
       \<and> (1 \<le> failureThreshold cfg \<and> length evs = failureThreshold cfg \<longrightarrow>
            state (record_all cfg t evs) = Quarantined
            \<and> quarantinedAt (record_all cfg t evs) = Some (fst (last evs)))
       \<and> (state t' \<noteq> Quarantined \<longrightarrow> state (Record cfg now t' Success) = Healthy)
       \<and> consecutiveFailures (Record cfg now t' Success) = 0"
proof (intro conjI impI)
  assume "length evs < failureThreshold cfg"
  with assms failures_below_threshold [of t evs cfg]
  show "state (record_all cfg t evs) = Healthy"
    and "consecutiveFailures (record_all cfg t evs) = length evs"
    by simp_all
next
  assume a: "1 \<le> failureThreshold cfg \<and> length evs = failureThreshold cfg"
  then have "evs \<noteq> []" by auto
  with a assms failures_reach_threshold [of t evs cfg]
  show "state (record_all cfg t evs) = Quarantined"
    and "quarantinedAt (record_all cfg t evs) = Some (fst (last evs))"
    by simp_all
next
  assume "state t' \<noteq> Quarantined"
  then show "state (Record cfg now t' Success) = Healthy"
    by (cases "state t'") (simp_all add: Record_def)
next
  show "consecutiveFailures (Record cfg now t' Success) = 0"
    by (cases "state t'") (simp_all add: Record_def)
qed

theorem record_quarantine_threshold_witness:
  "state (record_all default_config (new_target ''app2:9000'')
            [(1000, Timeout), (2000, ConnectionFailure)]) = Healthy
   \<and> consecutiveFailures (record_all default_config (new_target ''app2:9000'')
            [(1000, Timeout), (2000, ConnectionFailure)]) = 2
   \<and> state (record_all default_config (new_target ''app2:9000'')
            [(1000, Timeout), (2000, ConnectionFailure), (3000, Timeout)]) = Quarantined
   \<and> quarantinedAt (record_all default_config (new_target ''app2:9000'')
            [(1000, Timeout), (2000, ConnectionFailure), (3000, Timeout)]) = Some 3000"
proof -
  let ?t = "new_target ''app2:9000''"
  let ?two = "[(1000::nat, Timeout), (2000, ConnectionFailure)]"
  let ?three = "[(1000::nat, Timeout), (2000, ConnectionFailure), (3000, Timeout)]"
  have fresh: "state ?t = Healthy" "consecutiveFailures ?t = 0"
    by (simp_all add: new_target_def)
  have fail2: "\<forall>e\<in>set ?two. is_failure (snd e)"
    and fail3: "\<forall>e\<in>set ?three. is_failure (snd e)"
    by simp_all
  have thr: "failureThreshold default_config = 3"
    by (simp add: default_config_def)
  from record_quarantine_threshold [OF fresh fail2, of default_config] thr
  have "state (record_all default_config ?t ?two) = Healthy
      \<and> consecutiveFailures (record_all default_config ?t ?two) = 2"
    by simp
  moreover from record_quarantine_threshold [OF fresh fail3, of default_config] thr
  have "state (record_all default_config ?t ?three) = Quarantined
      \<and> quarantinedAt (record_all default_config ?t ?three) = Some 3000"
    by simp
  ultimately show ?thesis by blast
qed

text \<open>
  C6. Recording a success for a \<open>Healthy\<close> Target whose counter is 0 gives back the very
  same Target, and so does any run of successes; on any \<open>Healthy\<close> Target a run of
  successes leaves the state \<open>Healthy\<close>, and the counter is 0 after the first of them.
\<close>

theorem record_success_idempotent:
  assumes "state t = Healthy" and "\<forall>e\<in>set evs. snd e = Success"
  shows "state (record_all cfg t evs) = Healthy
       \<and> (consecutiveFailures t = 0 \<longrightarrow> Record cfg now t Success = t)
       \<and> (consecutiveFailures t = 0 \<longrightarrow> record_all cfg t evs = t)
       \<and> (evs \<noteq> [] \<longrightarrow> consecutiveFailures (record_all cfg t evs) = 0)"
  using assms successes_keep_healthy [of t evs cfg]
  by (auto simp add: record_success_healthy)

theorem record_success_idempotent_witness:
  "record_all default_config (new_target ''app1:9000'')
     [(10, Success), (20, Success), (30, Success)] = new_target ''app1:9000''
   \<and> Record default_config 10 (new_target ''app1:9000'') Success = new_target ''app1:9000''
   \<and> state (new_target ''app1:9000'') = Healthy
   \<and> consecutiveFailures (new_target ''app1:9000'') = 0"
proof -
  let ?t = "new_target ''app1:9000''"
  let ?evs = "[(10::nat, Success), (20, Success), (30, Success)]"
  have healthy: "state ?t = Healthy" and zero: "consecutiveFailures ?t = 0"
    by (simp_all add: new_target_def)
  have succ: "\<forall>e\<in>set ?evs. snd e = Success"
    by simp
  from record_success_idempotent [OF healthy succ, of default_config 10] zero healthy
  show ?thesis by blast
qed

end
